theory Spec2Isabelle
  imports Main "HOL-Library.Sublist"
begin

section \<open>The activity monitor (main.go)\<close>

text \<open>
  The program polls the foreground window with external commands (\<open>xdotool\<close>,
  \<open>ps\<close>), prints one line per successful poll and backs off after repeated
  failures. Everything it does besides computing is written out here:
  \<^item> Go strings are byte strings (\<open>string\<close>); a Go \<open>error\<close> is its message;
  \<^item> a call that returns \<open>(value, error)\<close> returns \<open>error + value\<close>, \<open>Inl\<close> the error;
  \<^item> the outside world answers every external command; the answer to the \<open>n\<close>-th
    command may differ from the answer to the one before, since the desktop changes
    while the program runs;
  \<^item> output, logging and sleeping are events appended to a trace;
  \<^item> the endless \<open>for\<close> loop is a \<^theory_text>\<open>partial_function\<close> in the option
    monad, whose value \<open>None\<close> means that the call never returns.
\<close>

subsection \<open>Package strings\<close>

text \<open>
  \<open>strings.ToLower\<close> and \<open>strings.TrimSpace\<close> work on bytes as long as the string
  is ASCII and fall back on the Unicode tables of package \<open>unicode\<close> otherwise. The
  tables are not part of the program: the fallbacks are parameters.
\<close>

record unicode_tables =
  MapToLower :: "string \<Rightarrow> string"  \<comment> \<open>\<open>strings.Map(unicode.ToLower, s)\<close>\<close>
  TrimFuncIsSpace :: "string \<Rightarrow> string"  \<comment> \<open>\<open>strings.TrimFunc(s, unicode.IsSpace)\<close>\<close>
  TrimRightFuncIsSpace :: "string \<Rightarrow> string"  \<comment> \<open>\<open>strings.TrimRightFunc(s, unicode.IsSpace)\<close>\<close>

definition isASCII :: "char \<Rightarrow> bool" where
  "isASCII c = ((of_char c :: nat) < 128)"

definition isUpperASCII :: "char \<Rightarrow> bool" where
  "isUpperASCII c = ((65::nat) \<le> of_char c \<and> (of_char c :: nat) \<le> 90)"

definition toLowerASCII :: "char \<Rightarrow> char" where
  "toLowerASCII c = (if isUpperASCII c then char_of ((of_char c :: nat) + 32) else c)"

definition ToLower :: "unicode_tables \<Rightarrow> string \<Rightarrow> string" where
  "ToLower U s = (if list_all isASCII s then map toLowerASCII s else MapToLower U s)"

definition asciiSpace :: "char \<Rightarrow> bool" where
  "asciiSpace c = ((of_char c :: nat) \<in> {9, 10, 11, 12, 13, 32})"

fun trimRight :: "unicode_tables \<Rightarrow> string \<Rightarrow> string" where
  "trimRight U [] = []"
| "trimRight U (c # cs) =
     (if \<not> isASCII c then TrimRightFuncIsSpace U (rev (c # cs))
      else if asciiSpace c then trimRight U cs
      else rev (c # cs))"

fun trimLeft :: "unicode_tables \<Rightarrow> string \<Rightarrow> string" where
  "trimLeft U [] = []"
| "trimLeft U (c # cs) =
     (if \<not> isASCII c then TrimFuncIsSpace U (c # cs)
      else if asciiSpace c then trimLeft U cs
      else trimRight U (rev (c # cs)))"

text \<open>
  \<open>TrimSpace\<close> scans from the left, then from the right (\<open>trimRight\<close> walks the
  reversed rest); at the first non-ASCII byte either scan hands over to the
  Unicode-aware function.
\<close>

definition TrimSpace :: "unicode_tables \<Rightarrow> string \<Rightarrow> string" where
  "TrimSpace U s = trimLeft U s"

fun Contains :: "string \<Rightarrow> string \<Rightarrow> bool" where
  "Contains [] substr = (substr = [])"
| "Contains (c # cs) substr = (prefix substr (c # cs) \<or> Contains cs substr)"

subsection \<open>Package fmt: \<open>%d\<close>\<close>

definition digit :: "nat \<Rightarrow> char" where
  "digit d = ''0123456789'' ! d"

fun decimal :: "nat \<Rightarrow> string" where
  "decimal n = (if n < 10 then [digit n] else decimal (n div 10) @ [digit (n mod 10)])"

definition Itoa :: "int \<Rightarrow> string" where
  "Itoa i = (if i < 0 then CHR ''-'' # decimal (nat (- i)) else decimal (nat i))"

subsection \<open>The world, the machine and the effects\<close>

text \<open>
  Only the wall-clock reading of a \<open>time.Time\<close> is used (layout \<open>15:04:05\<close>).
\<close>

record Time =
  hour :: nat
  minute :: nat
  second :: nat

definition pad2 :: "nat \<Rightarrow> string" where
  "pad2 n = (if n < 10 then CHR ''0'' # decimal n else decimal n)"

definition Format_150405 :: "Time \<Rightarrow> string" where
  "Format_150405 t = pad2 (hour t) @ '':'' @ pad2 (minute t) @ '':'' @ pad2 (second t)"

text \<open>
  \<open>Output w n argv\<close> is what \<open>exec.Command(argv...).Output()\<close> returns when it is
  the \<open>n\<close>-th external command of the run (its standard output, or the error);
  \<open>Now w n\<close> is the clock reading once \<open>n\<close> commands have run.
\<close>

record world =
  LookPath :: "string \<Rightarrow> string + string"
  Output :: "nat \<Rightarrow> string list \<Rightarrow> string + string"
  Now :: "nat \<Rightarrow> Time"

type_synonym Duration = int  \<comment> \<open>nanoseconds\<close>

definition Second :: Duration where
  "Second = 1000000000"

text \<open>
  \<open>Log msg\<close>: a line handed to the standard logger (it adds date, time and the
  newline); \<open>Print bytes\<close>: bytes written to standard output; \<open>Sleep d\<close>: the
  program pauses for \<open>d\<close>.
\<close>

datatype event = Log string | Print string | Sleep Duration

record machine =
  calls :: nat  \<comment> \<open>external commands run so far\<close>
  trace :: "event list"  \<comment> \<open>oldest event first\<close>

definition exec_Output ::
  "world \<Rightarrow> string list \<Rightarrow> 'a machine_scheme \<Rightarrow> (string + string) \<times> 'a machine_scheme" where
  "exec_Output w argv s = (Output w (calls s) argv, s\<lparr>calls := Suc (calls s)\<rparr>)"

definition emit :: "event \<Rightarrow> 'a machine_scheme \<Rightarrow> 'a machine_scheme" where
  "emit e s = s\<lparr>trace := trace s @ [e]\<rparr>"

definition newline :: string where
  "newline = [CHR 0x0A]"

definition apostrophe :: string where
  "apostrophe = [CHR 0x27]"

definition arrow :: string where  \<comment> \<open>U+2192 in UTF-8\<close>
  "arrow = [CHR 0xE2, CHR 0x86, CHR 0x92]"

subsection \<open>checkDependencies\<close>

definition checkDependencies ::
  "world \<Rightarrow> 'a machine_scheme \<Rightarrow> (string + unit) \<times> 'a machine_scheme" where
  "checkDependencies w s =
     (case LookPath w ''xdotool'' of
        Inl err \<Rightarrow>
          (Inl ''xdotool is not installed. Please run: sudo apt-get install xdotool'', s)
      | Inr path \<Rightarrow>
          (case exec_Output w [''xdotool'', ''getdisplaygeometry''] s of
             (Inl err, s1) \<Rightarrow>
               (Inl (''cannot connect to X display. Make sure you'' @ apostrophe
                     @ ''re running in X11 session: '' @ err), s1)
           | (Inr out, s1) \<Rightarrow> (Inr (), s1)))"

subsection \<open>getActiveWindowTitle and getActiveProcessName\<close>

definition getActiveWindowTitle ::
  "unicode_tables \<Rightarrow> world \<Rightarrow> 'a machine_scheme \<Rightarrow> (string + string) \<times> 'a machine_scheme" where
  "getActiveWindowTitle U w s =
     (case exec_Output w [''xdotool'', ''getactivewindow''] s of
        (Inl err, s1) \<Rightarrow> (Inl (''failed to get active window ID: '' @ err), s1)
      | (Inr windowID, s1) \<Rightarrow>
          (case exec_Output w [''xdotool'', ''getwindowname'', TrimSpace U windowID] s1 of
             (Inl err, s2) \<Rightarrow> (Inl (''failed to get window name: '' @ err), s2)
           | (Inr output, s2) \<Rightarrow> (Inr (TrimSpace U output), s2)))"

definition getActiveProcessName ::
  "unicode_tables \<Rightarrow> world \<Rightarrow> 'a machine_scheme \<Rightarrow> (string + string) \<times> 'a machine_scheme" where
  "getActiveProcessName U w s =
     (case exec_Output w [''xdotool'', ''getactivewindow''] s of
        (Inl err, s1) \<Rightarrow> (Inl (''failed to get active window ID: '' @ err), s1)
      | (Inr windowID, s1) \<Rightarrow>
          (case exec_Output w [''xdotool'', ''getwindowpid'', TrimSpace U windowID] s1 of
             (Inl err, s2) \<Rightarrow> (Inl (''failed to get window PID: '' @ err), s2)
           | (Inr pidBytes, s2) \<Rightarrow>
               (let pid = TrimSpace U pidBytes in
                case exec_Output w [''ps'', ''-p'', pid, ''-o'', ''comm=''] s2 of
                  (Inl err, s3) \<Rightarrow> (Inl (''failed to get process name: '' @ err), s3)
                | (Inr output, s3) \<Rightarrow> (Inr (TrimSpace U output), s3))))"

subsection \<open>monitorActivity\<close>

record ActivityInfo =
  WindowTitle :: string
  ProcessName :: string
  Timestamp :: Time

text \<open>
  The state of the loop is the machine and the local variable
  \<open>consecutiveErrors\<close>. It is a Go \<open>int\<close>; it is modelled as an unbounded
  integer, and stays between 0 and 3 on every run (proved below), far from where
  a machine integer wraps around.
\<close>

record loop_state = machine +
  consecutiveErrors :: int

definition maxConsecutiveErrors :: int where
  "maxConsecutiveErrors = 3"

text \<open>The six lines logged when the threshold is reached (lines 84 to 89).\<close>

definition hint :: "event list" where
  "hint =
     [Log ''Too many consecutive errors. Possible causes:'',
      Log ''1. No X11 session active'',
      Log ''2. Running in Wayland instead of X11'',
      Log ''3. No active window'',
      Log ''4. Insufficient permissions'',
      Log (newline @ ''Trying again in 10 seconds...'')]"

text \<open>The line printed for an activity (lines 114 to 117).\<close>

definition activityLine :: "ActivityInfo \<Rightarrow> string" where
  "activityLine activity =
     ''['' @ Format_150405 (Timestamp activity) @ ''] Process: '' @ ProcessName activity
     @ '' | Window: '' @ WindowTitle activity @ newline"

text \<open>The \<open>switch\<close> of lines 120 to 127: the first case that holds is taken.\<close>

definition applicationLogging :: "unicode_tables \<Rightarrow> string \<Rightarrow> loop_state \<Rightarrow> loop_state" where
  "applicationLogging U processName s =
     (if Contains (ToLower U processName) ''chrome''
        then emit (Print (arrow @ '' Browser activity detected'' @ newline)) s
      else if Contains (ToLower U processName) ''code''
        then emit (Print (arrow @ '' VS Code activity detected'' @ newline)) s
      else if Contains (ToLower U processName) ''nvim''
        then emit (Print (arrow @ '' Neovim activity detected'' @ newline)) s
      else s)"

text \<open>
  One iteration of the \<open>for\<close> loop (lines 77 to 129): from the loop state at the
  top of the body to the loop state at the top of the next iteration. Each
  \<open>continue\<close> and the end of the body lead there.
\<close>

definition tick :: "unicode_tables \<Rightarrow> world \<Rightarrow> Duration \<Rightarrow> loop_state \<Rightarrow> loop_state" where
  "tick U w interval s =
     (case getActiveWindowTitle U w s of
        (Inl err, s1) \<Rightarrow>
          (let s2 = s1\<lparr>consecutiveErrors := consecutiveErrors s1 + 1\<rparr>;
               s3 = emit (Log (''Error getting window title (attempt ''
                      @ Itoa (consecutiveErrors s2) @ ''/'' @ Itoa maxConsecutiveErrors
                      @ ''): '' @ err)) s2
           in if consecutiveErrors s3 \<ge> maxConsecutiveErrors
              then (let s4 = s3\<lparr>trace := trace s3 @ hint\<rparr>;
                        s5 = emit (Sleep (10 * Second)) s4
                    in s5\<lparr>consecutiveErrors := 0\<rparr>)
              else emit (Sleep interval) s3)
      | (Inr windowTitle, s1) \<Rightarrow>
          (let s2 = s1\<lparr>consecutiveErrors := 0\<rparr> in
           case getActiveProcessName U w s2 of
             (Inl err, s3) \<Rightarrow>
               emit (Sleep interval) (emit (Log (''Error getting process name: '' @ err)) s3)
           | (Inr processName, s3) \<Rightarrow>
               (let activity = \<lparr>WindowTitle = windowTitle, ProcessName = processName,
                                 Timestamp = Now w (calls s3)\<rparr>;
                    s4 = emit (Print (activityLine activity)) s3;
                    s5 = applicationLogging U processName s4
                in emit (Sleep interval) s5)))"

text \<open>The loop has no \<open>break\<close> and no \<open>return\<close>: the body is followed by the body.\<close>

partial_function (option) loop ::
  "unicode_tables \<Rightarrow> world \<Rightarrow> Duration \<Rightarrow> loop_state \<Rightarrow> machine option" where
  "loop U w interval s = loop U w interval (tick U w interval s)"

declare loop.simps [code]

text \<open>Entering \<open>monitorActivity\<close> sets the counter to 0 (line 73).\<close>

definition enter :: "machine \<Rightarrow> loop_state" where
  "enter m = \<lparr>calls = calls m, trace = trace m, consecutiveErrors = 0\<rparr>"

definition monitorActivity ::
  "unicode_tables \<Rightarrow> world \<Rightarrow> Duration \<Rightarrow> machine \<Rightarrow> machine option" where
  "monitorActivity U w interval m = loop U w interval (enter m)"

text \<open>The loop state after the first \<open>n\<close> iterations.\<close>

fun ticks :: "unicode_tables \<Rightarrow> world \<Rightarrow> Duration \<Rightarrow> nat \<Rightarrow> loop_state \<Rightarrow> loop_state" where
  "ticks U w interval 0 s = s"
| "ticks U w interval (Suc n) s = ticks U w interval n (tick U w interval s)"

subsection \<open>main\<close>

text \<open>
  \<open>Some (status, m)\<close>: the process exits by itself with that status, in machine
  state \<open>m\<close>; \<open>None\<close>: it never does. \<open>log.Fatalf\<close> logs and exits with status 1.
\<close>

definition main :: "unicode_tables \<Rightarrow> world \<Rightarrow> machine \<Rightarrow> (int \<times> machine) option" where
  "main U w m0 =
     (let m1 = emit (Log ''Starting activity monitor...'') m0 in
      case checkDependencies w m1 of
        (Inl err, m2) \<Rightarrow> Some (1, emit (Log (''Dependency check failed: '' @ err)) m2)
      | (Inr u, m2) \<Rightarrow>
          (let m3 = emit (Print (''All dependencies checked. Starting monitoring...'' @ newline)) m2;
               m4 = emit (Print (''Press Ctrl+C to stop'' @ newline)) m3
           in case monitorActivity U w (5 * Second) m4 of
                None \<Rightarrow> None
              | Some m5 \<Rightarrow> Some (0, m5)))"

subsection \<open>Observations\<close>

text \<open>The events of one iteration: what it appends to the trace.\<close>

definition tick_events :: "unicode_tables \<Rightarrow> world \<Rightarrow> Duration \<Rightarrow> loop_state \<Rightarrow> event list" where
  "tick_events U w interval s = drop (length (trace s)) (trace (tick U w interval s))"

text \<open>What a list of events writes to standard output.\<close>

fun printed :: "event list \<Rightarrow> string list" where
  "printed [] = []"
| "printed (Print bytes # es) = bytes # printed es"
| "printed (e # es) = printed es"

text \<open>The line, if any, that the \<open>switch\<close> prints for a process name.\<close>

definition tagLines :: "unicode_tables \<Rightarrow> string \<Rightarrow> string list" where
  "tagLines U processName =
     printed (trace (applicationLogging U processName
        \<lparr>calls = 0, trace = [], consecutiveErrors = 0\<rparr>))"





subsection \<open>Example worlds\<close>

text \<open>No Unicode table is needed on ASCII strings.\<close>

definition ascii_only :: unicode_tables where
  "ascii_only = \<lparr>MapToLower = (\<lambda>s. s), TrimFuncIsSpace = (\<lambda>s. s),
                  TrimRightFuncIsSpace = (\<lambda>s. s)\<rparr>"




text \<open>
  A desktop with three windows: 111 (``Inbox'', process 10, chrome), 222
  (``main.go'', process 20, code) and 333 (``Desktop'', which has no process).
  \<open>focus n\<close> is the window that has the focus when the \<open>n\<close>-th command runs,
  if any.
\<close>

definition answer :: "string option \<Rightarrow> string list \<Rightarrow> string + string" where
  "answer active argv =
     (if argv = [''xdotool'', ''getdisplaygeometry''] then Inr (''1920 1080'' @ newline)
      else if argv = [''xdotool'', ''getactivewindow''] then
        (case active of None \<Rightarrow> Inl ''exit status 1'' | Some wid \<Rightarrow> Inr (wid @ newline))
      else if argv = [''xdotool'', ''getwindowname'', ''111''] then Inr (''Inbox'' @ newline)
      else if argv = [''xdotool'', ''getwindowname'', ''222''] then Inr (''main.go'' @ newline)
      else if argv = [''xdotool'', ''getwindowname'', ''333''] then Inr (''Desktop'' @ newline)
      else if argv = [''xdotool'', ''getwindowpid'', ''111''] then Inr (''10'' @ newline)
      else if argv = [''xdotool'', ''getwindowpid'', ''222''] then Inr (''20'' @ newline)
      else if argv = [''ps'', ''-p'', ''10'', ''-o'', ''comm=''] then Inr (''chrome'' @ newline)
      else if argv = [''ps'', ''-p'', ''20'', ''-o'', ''comm=''] then Inr (''code'' @ newline)
      else Inl ''exit status 1'')"

definition desktop :: "(nat \<Rightarrow> string option) \<Rightarrow> world" where
  "desktop focus =
     \<lparr>LookPath = (\<lambda>file. Inr (''/usr/bin/'' @ file)),
      Output = (\<lambda>n argv. answer (focus n) argv),
      Now = (\<lambda>n. \<lparr>hour = 9, minute = 30, second = n\<rparr>)\<rparr>"

text \<open>A machine without a display: the tool is installed, every command fails.\<close>

definition headless :: world where
  "headless =
     \<lparr>LookPath = (\<lambda>file. Inr (''/usr/bin/'' @ file)),
      Output = (\<lambda>n argv. Inl ''exit status 1''),
      Now = (\<lambda>n. \<lparr>hour = 9, minute = 30, second = n\<rparr>)\<rparr>"

definition start :: machine where
  "start = \<lparr>calls = 0, trace = []\<rparr>"

text \<open>The focus moves from window 111 to window 222 after two commands.\<close>

definition focus_moves :: world where
  "focus_moves = desktop (\<lambda>n. if n < 2 then Some ''111'' else Some ''222'')"

text \<open>No window has the focus for the first two commands; then window 111 has it.\<close>

definition focus_late :: world where
  "focus_late = desktop (\<lambda>n. if n < 2 then None else Some ''111'')"

text \<open>The focus stays on window 333, or on window 111.\<close>

definition focus_333 :: world where
  "focus_333 = desktop (\<lambda>n. Some ''333'')"

definition focus_111 :: world where
  "focus_111 = desktop (\<lambda>n. Some ''111'')"

section \<open>Properties\<close>

subsection \<open>Package strings and number formatting\<close>











lemma Itoa_1: "Itoa 1 = ''1''"
  by (simp add: Itoa_def digit_def)

lemma Itoa_2: "Itoa 2 = ''2''"
  by (simp add: Itoa_def digit_def)

lemma Itoa_3: "Itoa 3 = ''3''"
  by (simp add: Itoa_def digit_def)

subsection \<open>The queries only run commands\<close>

lemma title_state:
  "snd (getActiveWindowTitle U w s) = s\<lparr>calls := calls (snd (getActiveWindowTitle U w s))\<rparr>"
  by (simp add: getActiveWindowTitle_def exec_Output_def split: sum.splits)

lemma process_state:
  "snd (getActiveProcessName U w s) = s\<lparr>calls := calls (snd (getActiveProcessName U w s))\<rparr>"
  by (simp add: getActiveProcessName_def exec_Output_def Let_def split: sum.splits)

lemma title_keeps:
  assumes "getActiveWindowTitle U w s = (r, s1)"
  shows "trace s1 = trace s" and "consecutiveErrors s1 = consecutiveErrors s"
proof -
  have "s1 = s\<lparr>calls := calls s1\<rparr>"
    using title_state [of U w s] assms by simp
  then have "trace s1 = trace (s\<lparr>calls := calls s1\<rparr>)"
    and "consecutiveErrors s1 = consecutiveErrors (s\<lparr>calls := calls s1\<rparr>)"
    by simp_all
  then show "trace s1 = trace s" and "consecutiveErrors s1 = consecutiveErrors s"
    by simp_all
qed

lemma process_keeps:
  assumes "getActiveProcessName U w s = (r, s1)"
  shows "trace s1 = trace s" and "consecutiveErrors s1 = consecutiveErrors s"
proof -
  have "s1 = s\<lparr>calls := calls s1\<rparr>"
    using process_state [of U w s] assms by simp
  then have "trace s1 = trace (s\<lparr>calls := calls s1\<rparr>)"
    and "consecutiveErrors s1 = consecutiveErrors (s\<lparr>calls := calls s1\<rparr>)"
    by simp_all
  then show "trace s1 = trace s" and "consecutiveErrors s1 = consecutiveErrors s"
    by simp_all
qed

text \<open>The commands that the two queries run, and the answers they depend on.\<close>

lemma title_answer:
  "getActiveWindowTitle U w s =
     (case Output w (calls s) [''xdotool'', ''getactivewindow''] of
        Inl err \<Rightarrow> (Inl (''failed to get active window ID: '' @ err), s\<lparr>calls := calls s + 1\<rparr>)
      | Inr windowID \<Rightarrow>
          (case Output w (calls s + 1) [''xdotool'', ''getwindowname'', TrimSpace U windowID] of
             Inl err \<Rightarrow> (Inl (''failed to get window name: '' @ err), s\<lparr>calls := calls s + 2\<rparr>)
           | Inr output \<Rightarrow> (Inr (TrimSpace U output), s\<lparr>calls := calls s + 2\<rparr>)))"
  by (simp add: getActiveWindowTitle_def exec_Output_def split: sum.splits)

lemma process_answer:
  "getActiveProcessName U w s =
     (case Output w (calls s) [''xdotool'', ''getactivewindow''] of
        Inl err \<Rightarrow> (Inl (''failed to get active window ID: '' @ err), s\<lparr>calls := calls s + 1\<rparr>)
      | Inr windowID \<Rightarrow>
          (case Output w (calls s + 1) [''xdotool'', ''getwindowpid'', TrimSpace U windowID] of
             Inl err \<Rightarrow> (Inl (''failed to get window PID: '' @ err), s\<lparr>calls := calls s + 2\<rparr>)
           | Inr pidBytes \<Rightarrow>
               (case Output w (calls s + 2)
                       [''ps'', ''-p'', TrimSpace U pidBytes, ''-o'', ''comm=''] of
                  Inl err \<Rightarrow>
                    (Inl (''failed to get process name: '' @ err), s\<lparr>calls := calls s + 3\<rparr>)
                | Inr output \<Rightarrow> (Inr (TrimSpace U output), s\<lparr>calls := calls s + 3\<rparr>))))"
  by (simp add: getActiveProcessName_def exec_Output_def Let_def split: sum.splits)

subsection \<open>The three ways through the loop body\<close>

lemma printed_append: "printed (xs @ ys) = printed xs @ printed ys"
  by (induction xs rule: printed.induct) simp_all

lemma printed_map_Print: "printed (map Print ls) = ls"
  by (induction ls) simp_all

lemma printed_hint: "printed hint = []"
  by (simp add: hint_def)

lemma tagLines_eq:
  "tagLines U name =
     (if Contains (ToLower U name) ''chrome''
        then [arrow @ '' Browser activity detected'' @ newline]
      else if Contains (ToLower U name) ''code''
        then [arrow @ '' VS Code activity detected'' @ newline]
      else if Contains (ToLower U name) ''nvim''
        then [arrow @ '' Neovim activity detected'' @ newline]
      else [])"
  by (simp add: tagLines_def applicationLogging_def emit_def)

lemma applicationLogging_trace:
  "applicationLogging U processName s = s\<lparr>trace := trace s @ map Print (tagLines U processName)\<rparr>"
  by (simp add: applicationLogging_def tagLines_def emit_def)

lemma tick_title_error:
  assumes "getActiveWindowTitle U w s = (Inl err, s1)"
  shows "tick U w interval s =
     (if maxConsecutiveErrors \<le> consecutiveErrors s + 1
      then s1\<lparr>trace := trace s @ Log (''Error getting window title (attempt ''
                      @ Itoa (consecutiveErrors s + 1) @ ''/'' @ Itoa maxConsecutiveErrors
                      @ ''): '' @ err) # hint @ [Sleep (10 * Second)],
              consecutiveErrors := 0\<rparr>
      else s1\<lparr>trace := trace s @ [Log (''Error getting window title (attempt ''
                      @ Itoa (consecutiveErrors s + 1) @ ''/'' @ Itoa maxConsecutiveErrors
                      @ ''): '' @ err), Sleep interval],
              consecutiveErrors := consecutiveErrors s + 1\<rparr>)"
  using assms title_keeps [OF assms] by (simp add: tick_def emit_def Let_def)

lemma tick_process_error:
  assumes "getActiveWindowTitle U w s = (Inr windowTitle, s1)"
    and "getActiveProcessName U w (s1\<lparr>consecutiveErrors := 0\<rparr>) = (Inl err, s3)"
  shows "tick U w interval s =
     s3\<lparr>trace := trace s @ [Log (''Error getting process name: '' @ err), Sleep interval]\<rparr>"
    and "consecutiveErrors s3 = 0"
  using assms title_keeps [OF assms(1)] process_keeps [OF assms(2)]
  by (simp_all add: tick_def emit_def Let_def)

lemma tick_success:
  assumes "getActiveWindowTitle U w s = (Inr windowTitle, s1)"
    and "getActiveProcessName U w (s1\<lparr>consecutiveErrors := 0\<rparr>) = (Inr processName, s3)"
  shows "tick U w interval s =
     s3\<lparr>trace := trace s @ Print (activityLine \<lparr>WindowTitle = windowTitle,
             ProcessName = processName, Timestamp = Now w (calls s3)\<rparr>)
           # map Print (tagLines U processName) @ [Sleep interval]\<rparr>"
    and "consecutiveErrors s3 = 0"
  using assms title_keeps [OF assms(1)] process_keeps [OF assms(2)]
  by (simp_all add: tick_def emit_def Let_def applicationLogging_trace)

lemma tick_cases:
  obtains (title_error) err s1 where "getActiveWindowTitle U w s = (Inl err, s1)"
  | (process_error) windowTitle s1 err s3 where
      "getActiveWindowTitle U w s = (Inr windowTitle, s1)"
      "getActiveProcessName U w (s1\<lparr>consecutiveErrors := 0\<rparr>) = (Inl err, s3)"
  | (success) windowTitle s1 processName s3 where
      "getActiveWindowTitle U w s = (Inr windowTitle, s1)"
      "getActiveProcessName U w (s1\<lparr>consecutiveErrors := 0\<rparr>) = (Inr processName, s3)"
proof (cases "getActiveWindowTitle U w s")
  case (Pair r s1)
  show ?thesis
  proof (cases r)
    case (Inl err)
    with Pair show ?thesis by (auto intro: title_error)
  next
    case (Inr windowTitle)
    with Pair have title: "getActiveWindowTitle U w s = (Inr windowTitle, s1)" by simp
    show ?thesis
    proof (cases "getActiveProcessName U w (s1\<lparr>consecutiveErrors := 0\<rparr>)")
      case (Pair r' s3)
      with title show ?thesis
        by (cases r') (auto intro: process_error success)
    qed
  qed
qed

lemma tick_below_threshold:
  assumes "getActiveWindowTitle U w s = (Inl err, s1)"
    and "consecutiveErrors s + 1 < maxConsecutiveErrors"
  shows "tick_events U w interval s =
           [Log (''Error getting window title (attempt '' @ Itoa (consecutiveErrors s + 1)
                 @ ''/'' @ Itoa maxConsecutiveErrors @ ''): '' @ err), Sleep interval]"
    and "consecutiveErrors (tick U w interval s) = consecutiveErrors s + 1"
  using tick_title_error [OF assms(1), of interval] assms(2)
  by (simp_all add: tick_events_def)

lemma title_success_counter:
  assumes "getActiveWindowTitle U w s = (Inr windowTitle, s1)"
  shows "consecutiveErrors (tick U w interval s) = 0"
proof (cases "getActiveProcessName U w (s1\<lparr>consecutiveErrors := 0\<rparr>)")
  case (Pair r s3)
  show ?thesis
  proof (cases r)
    case (Inl err)
    with Pair have "getActiveProcessName U w (s1\<lparr>consecutiveErrors := 0\<rparr>) = (Inl err, s3)"
      by simp
    from tick_process_error(1) [OF assms this, of interval] tick_process_error(2) [OF assms this]
    show ?thesis by simp
  next
    case (Inr processName)
    with Pair have "getActiveProcessName U w (s1\<lparr>consecutiveErrors := 0\<rparr>) = (Inr processName, s3)"
      by simp
    from tick_success(1) [OF assms this, of interval] tick_success(2) [OF assms this]
    show ?thesis by simp
  qed
qed

text \<open>No event of an iteration in which the title query succeeds is a line of the hint.\<close>

lemma hint_not_after_title:
  assumes "getActiveWindowTitle U w s = (Inr windowTitle, s1)"
  shows "set hint \<inter> set (tick_events U w interval s) = {}"
proof (cases "getActiveProcessName U w (s1\<lparr>consecutiveErrors := 0\<rparr>)")
  case (Pair r s3)
  show ?thesis
  proof (cases r)
    case (Inl err)
    with Pair have "getActiveProcessName U w (s1\<lparr>consecutiveErrors := 0\<rparr>) = (Inl err, s3)"
      by simp
    from tick_process_error(1) [OF assms this, of interval] show ?thesis
      by (simp add: tick_events_def hint_def newline_def)
  next
    case (Inr processName)
    with Pair have "getActiveProcessName U w (s1\<lparr>consecutiveErrors := 0\<rparr>) = (Inr processName, s3)"
      by simp
    from tick_success(1) [OF assms this, of interval] show ?thesis
      by (auto simp: tick_events_def hint_def)
  qed
qed

subsection \<open>The counter stays in range\<close>

lemma tick_counter_range:
  assumes "0 \<le> consecutiveErrors s" and "consecutiveErrors s < maxConsecutiveErrors"
  shows "0 \<le> consecutiveErrors (tick U w interval s)
    \<and> consecutiveErrors (tick U w interval s) < maxConsecutiveErrors"
proof (cases "getActiveWindowTitle U w s")
  case (Pair r s1)
  show ?thesis
  proof (cases r)
    case (Inl err)
    with Pair have "getActiveWindowTitle U w s = (Inl err, s1)" by simp
    from tick_title_error [OF this, of interval] assms show ?thesis
      by (simp add: maxConsecutiveErrors_def)
  next
    case (Inr windowTitle)
    with Pair have title: "getActiveWindowTitle U w s = (Inr windowTitle, s1)" by simp
    show ?thesis
    proof (cases "getActiveProcessName U w (s1\<lparr>consecutiveErrors := 0\<rparr>)")
      case (Pair r' s3)
      show ?thesis
      proof (cases r')
        case (Inl err)
        with Pair have "getActiveProcessName U w (s1\<lparr>consecutiveErrors := 0\<rparr>) = (Inl err, s3)"
          by simp
        from tick_process_error(1) [OF title this, of interval] tick_process_error(2) [OF title this]
        show ?thesis
          by (simp add: maxConsecutiveErrors_def)
      next
        case (Inr processName)
        with Pair have "getActiveProcessName U w (s1\<lparr>consecutiveErrors := 0\<rparr>) = (Inr processName, s3)"
          by simp
        from tick_success(1) [OF title this, of interval] tick_success(2) [OF title this]
        show ?thesis
          by (simp add: maxConsecutiveErrors_def)
      qed
    qed
  qed
qed

lemma ticks_counter_range:
  "0 \<le> consecutiveErrors s \<Longrightarrow> consecutiveErrors s < maxConsecutiveErrors \<Longrightarrow>
   0 \<le> consecutiveErrors (ticks U w interval n s)
   \<and> consecutiveErrors (ticks U w interval n s) < maxConsecutiveErrors"
proof (induction n arbitrary: s)
  case 0
  then show ?case by simp
next
  case (Suc n)
  from tick_counter_range [OF Suc.prems, of U w interval]
  have "0 \<le> consecutiveErrors (tick U w interval s)"
    and "consecutiveErrors (tick U w interval s) < maxConsecutiveErrors"
    by simp_all
  from Suc.IH [OF this] show ?case by simp
qed

subsection \<open>The loop\<close>

lemma loop_Some_False: "loop U w interval s = Some m \<Longrightarrow> False"
  by (rule loop.raw_induct [where P = "\<lambda>_ _ _ _ _. False"])

lemma loop_None: "loop U w interval s = None"
  using loop_Some_False [of U w interval s] by (cases "loop U w interval s") auto

lemma loop_ticks: "loop U w interval s = loop U w interval (ticks U w interval n s)"
proof (induction n arbitrary: s)
  case 0
  show ?case by simp
next
  case (Suc n)
  have "loop U w interval s = loop U w interval (tick U w interval s)"
    by (rule loop.simps)
  also have "\<dots> = loop U w interval (ticks U w interval n (tick U w interval s))"
    by (rule Suc.IH)
  finally show ?case by simp
qed

lemma ticks_1: "ticks U w interval 1 s = tick U w interval s"
  by simp

lemma ticks_2: "ticks U w interval 2 s = tick U w interval (tick U w interval s)"
  by (simp add: numeral_2_eq_2)

lemma ticks_3:
  "ticks U w interval 3 s = tick U w interval (tick U w interval (tick U w interval s))"
  by (simp add: numeral_3_eq_3)








lemma main_never_exits:
  assumes "checkDependencies w (emit (Log ''Starting activity monitor...'') m) = (Inr u, m2)"
  shows "main U w m = None"
  using assms by (simp add: main_def monitorActivity_def loop_None)

subsection \<open>Evaluating the example worlds\<close>

lemmas query_defs = getActiveWindowTitle_def getActiveProcessName_def exec_Output_def
  desktop_def answer_def headless_def TrimSpace_def isASCII_def asciiSpace_def newline_def

subsection \<open>The claims\<close>

text \<open>
  C1. When the window-title query fails and the incremented counter reaches 3,
  the iteration logs the failure (as attempt 3 of 3 when the counter was 2), then
  the six lines of the hint with the four likely causes, sleeps 10 seconds and
  nothing else (not \<open>interval\<close>), leaves the counter at 0 and runs no further
  command: the next iteration follows.
\<close>

theorem threshold_backoff:
  assumes "getActiveWindowTitle U w s = (Inl err, s1)"
    and "3 \<le> consecutiveErrors s + 1"
  shows "tick_events U w interval s =
           [Log (''Error getting window title (attempt '' @ Itoa (consecutiveErrors s + 1)
                 @ ''/3): '' @ err),
            Log ''Too many consecutive errors. Possible causes:'',
            Log ''1. No X11 session active'',
            Log ''2. Running in Wayland instead of X11'',
            Log ''3. No active window'',
            Log ''4. Insufficient permissions'',
            Log (CHR 0x0A # ''Trying again in 10 seconds...''),
            Sleep 10000000000]
       \<and> (consecutiveErrors s = 2 \<longrightarrow>
            hd (tick_events U w interval s)
              = Log (''Error getting window title (attempt 3/3): '' @ err))
       \<and> consecutiveErrors (tick U w interval s) = 0
       \<and> calls (tick U w interval s) = calls s1"
  using tick_title_error [OF assms(1), of interval] assms(2)
  by (simp add: tick_events_def maxConsecutiveErrors_def hint_def newline_def Second_def
      Itoa_3)

theorem threshold_backoff_witness:
  "getActiveWindowTitle ascii_only headless \<lparr>calls = 0, trace = [], consecutiveErrors = 2\<rparr>
     = (Inl ''failed to get active window ID: exit status 1'',
        \<lparr>calls = 1, trace = [], consecutiveErrors = 2\<rparr>)
   \<and> 3 \<le> consecutiveErrors \<lparr>calls = 0, trace = [], consecutiveErrors = 2\<rparr> + 1
   \<and> tick_events ascii_only headless (5 * Second) \<lparr>calls = 0, trace = [], consecutiveErrors = 2\<rparr>
     = [Log ''Error getting window title (attempt 3/3): failed to get active window ID: exit status 1'',
        Log ''Too many consecutive errors. Possible causes:'',
        Log ''1. No X11 session active'',
        Log ''2. Running in Wayland instead of X11'',
        Log ''3. No active window'',
        Log ''4. Insufficient permissions'',
        Log (CHR 0x0A # ''Trying again in 10 seconds...''),
        Sleep 10000000000]
   \<and> consecutiveErrors (tick ascii_only headless (5 * Second)
        \<lparr>calls = 0, trace = [], consecutiveErrors = 2\<rparr>) = 0"
proof -
  have h1: "getActiveWindowTitle ascii_only headless \<lparr>calls = 0, trace = [], consecutiveErrors = 2\<rparr>
     = (Inl ''failed to get active window ID: exit status 1'',
        \<lparr>calls = 1, trace = [], consecutiveErrors = 2\<rparr>)"
    by (simp add: getActiveWindowTitle_def exec_Output_def headless_def)
  have h2: "3 \<le> consecutiveErrors \<lparr>calls = 0, trace = [], consecutiveErrors = 2\<rparr> + 1"
    by simp
  from threshold_backoff [OF h1 h2, of "5 * Second"] h1 h2 show ?thesis
    by (simp add: Itoa_3)
qed

text \<open>
  C2. Whatever the world answers, after any number of iterations the counter is
  0, 1 or 2 at the top of the loop. When the title query of the next iteration
  fails, the value the counter is incremented to, which the failure line logs as
  the attempt number, is 1, 2 or 3, never more; at 1 and 2 it is the counter
  after the iteration, at 3 the counter is back at 0 after the iteration.
\<close>

theorem counter_never_exceeds_max:
  "maxConsecutiveErrors = 3
   \<and> 0 \<le> consecutiveErrors (ticks U w interval n (enter m))
   \<and> consecutiveErrors (ticks U w interval n (enter m)) < maxConsecutiveErrors
   \<and> consecutiveErrors (ticks U w interval n (enter m)) + 1 \<le> maxConsecutiveErrors
   \<and> (\<forall>err s1.
        getActiveWindowTitle U w (ticks U w interval n (enter m)) = (Inl err, s1) \<longrightarrow>
          (consecutiveErrors (ticks U w interval n (enter m)) = 0
           \<and> hd (tick_events U w interval (ticks U w interval n (enter m)))
               = Log (''Error getting window title (attempt 1/3): '' @ err)
           \<and> consecutiveErrors (tick U w interval (ticks U w interval n (enter m))) = 1)
        \<or> (consecutiveErrors (ticks U w interval n (enter m)) = 1
           \<and> hd (tick_events U w interval (ticks U w interval n (enter m)))
               = Log (''Error getting window title (attempt 2/3): '' @ err)
           \<and> consecutiveErrors (tick U w interval (ticks U w interval n (enter m))) = 2)
        \<or> (consecutiveErrors (ticks U w interval n (enter m)) = 2
           \<and> hd (tick_events U w interval (ticks U w interval n (enter m)))
               = Log (''Error getting window title (attempt 3/3): '' @ err)
           \<and> consecutiveErrors (tick U w interval (ticks U w interval n (enter m))) = 0))"
proof -
  let ?s = "ticks U w interval n (enter m)"
  have "0 \<le> consecutiveErrors (enter m)" and "consecutiveErrors (enter m) < maxConsecutiveErrors"
    by (simp_all add: enter_def maxConsecutiveErrors_def)
  from ticks_counter_range [OF this, of U w interval n]
  have bounds: "0 \<le> consecutiveErrors ?s" "consecutiveErrors ?s < 3"
    by (simp_all add: maxConsecutiveErrors_def)
  then have three: "consecutiveErrors ?s = 0 \<or> consecutiveErrors ?s = 1 \<or> consecutiveErrors ?s = 2"
    by arith
  have "(consecutiveErrors ?s = 0
           \<and> hd (tick_events U w interval ?s)
               = Log (''Error getting window title (attempt 1/3): '' @ err)
           \<and> consecutiveErrors (tick U w interval ?s) = 1)
        \<or> (consecutiveErrors ?s = 1
           \<and> hd (tick_events U w interval ?s)
               = Log (''Error getting window title (attempt 2/3): '' @ err)
           \<and> consecutiveErrors (tick U w interval ?s) = 2)
        \<or> (consecutiveErrors ?s = 2
           \<and> hd (tick_events U w interval ?s)
               = Log (''Error getting window title (attempt 3/3): '' @ err)
           \<and> consecutiveErrors (tick U w interval ?s) = 0)"
    if "getActiveWindowTitle U w ?s = (Inl err, s1)" for err s1
    using tick_title_error [OF that, of interval] three
    by (auto simp: tick_events_def maxConsecutiveErrors_def Itoa_1 Itoa_2 Itoa_3)
  with bounds show ?thesis
    by (simp add: maxConsecutiveErrors_def)
qed

theorem counter_never_exceeds_max_witness:
  "getActiveWindowTitle ascii_only headless (ticks ascii_only headless (5 * Second) 2 (enter start))
     = (Inl ''failed to get active window ID: exit status 1'',
        \<lparr>calls = 3,
           trace = [Log ''Error getting window title (attempt 1/3): failed to get active window ID: exit status 1'',
                    Sleep (5 * Second),
                    Log ''Error getting window title (attempt 2/3): failed to get active window ID: exit status 1'',
                    Sleep (5 * Second)],
           consecutiveErrors = 2\<rparr>)
   \<and> consecutiveErrors (ticks ascii_only headless (5 * Second) 2 (enter start)) = 2
   \<and> hd (tick_events ascii_only headless (5 * Second)
          (ticks ascii_only headless (5 * Second) 2 (enter start)))
       = Log ''Error getting window title (attempt 3/3): failed to get active window ID: exit status 1''
   \<and> consecutiveErrors (tick ascii_only headless (5 * Second)
          (ticks ascii_only headless (5 * Second) 2 (enter start))) = 0"
proof -
  let ?e = "''failed to get active window ID: exit status 1''"
  let ?i = "5 * Second"
  let ?l1 = "[Log (''Error getting window title (attempt 1/3): '' @ ?e), Sleep ?i]"
  let ?l2 = "?l1 @ [Log (''Error getting window title (attempt 2/3): '' @ ?e), Sleep ?i]"
  let ?S1 = "\<lparr>calls = 1, trace = ?l1, consecutiveErrors = 1\<rparr>"
  let ?S2 = "\<lparr>calls = 2, trace = ?l2, consecutiveErrors = 2\<rparr>"
  have h1: "getActiveWindowTitle ascii_only headless (enter start)
      = (Inl ?e, \<lparr>calls = 1, trace = [], consecutiveErrors = 0\<rparr>)"
    by (simp add: query_defs enter_def start_def)
  have s1: "tick ascii_only headless ?i (enter start) = ?S1"
    using tick_title_error [OF h1, of ?i]
    by (simp add: enter_def start_def maxConsecutiveErrors_def Itoa_1 Itoa_3)
  have h2: "getActiveWindowTitle ascii_only headless ?S1
      = (Inl ?e, \<lparr>calls = 2, trace = ?l1, consecutiveErrors = 1\<rparr>)"
    by (simp add: query_defs)
  have s2: "tick ascii_only headless ?i ?S1 = ?S2"
    using tick_title_error [OF h2, of ?i]
    by (simp add: maxConsecutiveErrors_def Itoa_2 Itoa_3)
  have t2: "ticks ascii_only headless ?i 2 (enter start) = ?S2"
    by (simp only: ticks_2 s1 s2)
  have h3: "getActiveWindowTitle ascii_only headless ?S2
      = (Inl ?e, \<lparr>calls = 3, trace = ?l2, consecutiveErrors = 2\<rparr>)"
    by (simp add: query_defs)
  have h3': "getActiveWindowTitle ascii_only headless (ticks ascii_only headless ?i 2 (enter start))
      = (Inl ?e, \<lparr>calls = 3, trace = ?l2, consecutiveErrors = 2\<rparr>)"
    by (simp only: t2 h3)
  have c: "consecutiveErrors (ticks ascii_only headless ?i 2 (enter start)) = 2"
    by (simp add: t2)
  from counter_never_exceeds_max [of ascii_only headless ?i 2 start] h3' c
  have "hd (tick_events ascii_only headless ?i (ticks ascii_only headless ?i 2 (enter start)))
       = Log (''Error getting window title (attempt 3/3): '' @ ?e)
     \<and> consecutiveErrors (tick ascii_only headless ?i
          (ticks ascii_only headless ?i 2 (enter start))) = 0"
    by simp
  with h3' c show ?thesis
    by simp
qed

text \<open>
  C3. An iteration prints something exactly when the title query and the
  process-name query both succeed in it; what it then prints starts with the line
  of the activity made of the two answers and the clock reading, followed by the
  tag line if there is one. When either query fails nothing is printed.
\<close>

theorem sample_iff_both_queries_succeed:
  "(printed (tick_events U w interval s) \<noteq> [])
     = (\<exists>t s1 p s3. getActiveWindowTitle U w s = (Inr t, s1)
          \<and> getActiveProcessName U w (s1\<lparr>consecutiveErrors := 0\<rparr>) = (Inr p, s3))
   \<and> (\<forall>t s1 p s3. getActiveWindowTitle U w s = (Inr t, s1)
          \<and> getActiveProcessName U w (s1\<lparr>consecutiveErrors := 0\<rparr>) = (Inr p, s3)
        \<longrightarrow> printed (tick_events U w interval s)
            = activityLine \<lparr>WindowTitle = t, ProcessName = p, Timestamp = Now w (calls s3)\<rparr>
              # tagLines U p)"
proof (cases rule: tick_cases [of U w s])
  case (title_error err s1)
  from tick_title_error [OF this, of interval]
  have "printed (tick_events U w interval s) = []"
    by (simp add: tick_events_def printed_append printed_hint split: if_splits)
  with title_error show ?thesis by simp
next
  case (process_error windowTitle s1 err s3)
  from tick_process_error(1) [OF this, of interval]
  have "printed (tick_events U w interval s) = []"
    by (simp add: tick_events_def)
  with process_error show ?thesis by simp
next
  case (success windowTitle s1 processName s3)
  from tick_success(1) [OF this, of interval]
  have "printed (tick_events U w interval s)
      = activityLine \<lparr>WindowTitle = windowTitle, ProcessName = processName,
                       Timestamp = Now w (calls s3)\<rparr> # tagLines U processName"
    by (simp add: tick_events_def printed_append printed_map_Print)
  with success show ?thesis by simp
qed

theorem sample_iff_both_queries_succeed_witness:
  "getActiveWindowTitle ascii_only focus_111 (enter start)
     = (Inr ''Inbox'', \<lparr>calls = 2, trace = [], consecutiveErrors = 0\<rparr>)
   \<and> getActiveProcessName ascii_only focus_111
        (\<lparr>calls = 2, trace = [], consecutiveErrors = 0\<rparr>\<lparr>consecutiveErrors := 0\<rparr>)
     = (Inr ''chrome'', \<lparr>calls = 5, trace = [], consecutiveErrors = 0\<rparr>)
   \<and> printed (tick_events ascii_only focus_111 (5 * Second) (enter start))
     = [activityLine \<lparr>WindowTitle = ''Inbox'', ProcessName = ''chrome'',
                       Timestamp = \<lparr>hour = 9, minute = 30, second = 5\<rparr>\<rparr>,
        arrow @ '' Browser activity detected'' @ newline]
   \<and> activityLine \<lparr>WindowTitle = ''Inbox'', ProcessName = ''chrome'',
                     Timestamp = \<lparr>hour = 9, minute = 30, second = 5\<rparr>\<rparr>
     = ''[09:30:05] Process: chrome | Window: Inbox'' @ newline"
proof -
  have h1: "getActiveWindowTitle ascii_only focus_111 (enter start)
     = (Inr ''Inbox'', \<lparr>calls = 2, trace = [], consecutiveErrors = 0\<rparr>)"
    by (simp add: focus_111_def query_defs enter_def start_def)
  have h2: "getActiveProcessName ascii_only focus_111
        (\<lparr>calls = 2, trace = [], consecutiveErrors = 0\<rparr>\<lparr>consecutiveErrors := 0\<rparr>)
     = (Inr ''chrome'', \<lparr>calls = 5, trace = [], consecutiveErrors = 0\<rparr>)"
    by (simp add: focus_111_def query_defs)
  have now: "Now focus_111 5 = \<lparr>hour = 9, minute = 30, second = 5\<rparr>"
    by (simp add: focus_111_def desktop_def)
  have tag: "tagLines ascii_only ''chrome'' = [arrow @ '' Browser activity detected'' @ newline]"
    by (simp add: tagLines_eq ToLower_def isASCII_def toLowerASCII_def isUpperASCII_def)
  have line: "activityLine \<lparr>WindowTitle = ''Inbox'', ProcessName = ''chrome'',
                     Timestamp = \<lparr>hour = 9, minute = 30, second = 5\<rparr>\<rparr>
     = ''[09:30:05] Process: chrome | Window: Inbox'' @ newline"
    by (simp add: activityLine_def Format_150405_def pad2_def digit_def)
  from sample_iff_both_queries_succeed [of ascii_only focus_111 "5 * Second" "enter start"] h1 h2
  have "printed (tick_events ascii_only focus_111 (5 * Second) (enter start))
     = [activityLine \<lparr>WindowTitle = ''Inbox'', ProcessName = ''chrome'',
                       Timestamp = \<lparr>hour = 9, minute = 30, second = 5\<rparr>\<rparr>,
        arrow @ '' Browser activity detected'' @ newline]"
    by (simp add: now tag)
  with h1 h2 line show ?thesis
    by (simp only: simp_thms)
qed

text \<open>
  C4. When the title query succeeds and the process-name query fails, the
  iteration logs the failure and sleeps \<open>interval\<close>; the counter keeps the value it
  had when the process-name query was made (0, from the successful title query):
  the failure adds nothing to it.
\<close>

theorem process_failure_leaves_counter:
  assumes "getActiveWindowTitle U w s = (Inr windowTitle, s1)"
    and "getActiveProcessName U w (s1\<lparr>consecutiveErrors := 0\<rparr>) = (Inl err, s3)"
  shows "tick_events U w interval s = [Log (''Error getting process name: '' @ err), Sleep interval]
       \<and> consecutiveErrors (tick U w interval s) = consecutiveErrors (s1\<lparr>consecutiveErrors := 0\<rparr>)
       \<and> calls (tick U w interval s) = calls s3"
  using tick_process_error(1) [OF assms, of interval] tick_process_error(2) [OF assms]
  by (simp add: tick_events_def)

theorem process_failure_leaves_counter_witness:
  "getActiveWindowTitle ascii_only focus_333 \<lparr>calls = 0, trace = [], consecutiveErrors = 2\<rparr>
     = (Inr ''Desktop'', \<lparr>calls = 2, trace = [], consecutiveErrors = 2\<rparr>)
   \<and> getActiveProcessName ascii_only focus_333
       (\<lparr>calls = 2, trace = [], consecutiveErrors = 2\<rparr>\<lparr>consecutiveErrors := 0\<rparr>)
     = (Inl ''failed to get window PID: exit status 1'',
        \<lparr>calls = 4, trace = [], consecutiveErrors = 0\<rparr>)
   \<and> tick_events ascii_only focus_333 (5 * Second) \<lparr>calls = 0, trace = [], consecutiveErrors = 2\<rparr>
     = [Log ''Error getting process name: failed to get window PID: exit status 1'',
        Sleep 5000000000]
   \<and> consecutiveErrors (tick ascii_only focus_333 (5 * Second)
       \<lparr>calls = 0, trace = [], consecutiveErrors = 2\<rparr>) = 0"
proof -
  have h1: "getActiveWindowTitle ascii_only focus_333 \<lparr>calls = 0, trace = [], consecutiveErrors = 2\<rparr>
     = (Inr ''Desktop'', \<lparr>calls = 2, trace = [], consecutiveErrors = 2\<rparr>)"
    by (simp add: focus_333_def query_defs)
  have h2: "getActiveProcessName ascii_only focus_333
       (\<lparr>calls = 2, trace = [], consecutiveErrors = 2\<rparr>\<lparr>consecutiveErrors := 0\<rparr>)
     = (Inl ''failed to get window PID: exit status 1'',
        \<lparr>calls = 4, trace = [], consecutiveErrors = 0\<rparr>)"
    by (simp add: focus_333_def query_defs)
  from process_failure_leaves_counter [OF h1 h2, of "5 * Second"] h1 h2 show ?thesis
    by (simp add: Second_def)
qed

text \<open>
  C5. An iteration whose title query succeeds ends with the counter at 0,
  whatever the counter was before.
\<close>

theorem title_success_resets_counter:
  assumes "getActiveWindowTitle U w s = (Inr windowTitle, s1)"
  shows "consecutiveErrors (tick U w interval s) = 0"
  by (rule title_success_counter [OF assms])

theorem title_success_resets_counter_witness:
  "getActiveWindowTitle ascii_only focus_111 \<lparr>calls = 0, trace = [], consecutiveErrors = 2\<rparr>
     = (Inr ''Inbox'', \<lparr>calls = 2, trace = [], consecutiveErrors = 2\<rparr>)
   \<and> consecutiveErrors (tick ascii_only focus_111 (5 * Second)
       \<lparr>calls = 0, trace = [], consecutiveErrors = 2\<rparr>) = 0"
proof -
  have h1: "getActiveWindowTitle ascii_only focus_111 \<lparr>calls = 0, trace = [], consecutiveErrors = 2\<rparr>
     = (Inr ''Inbox'', \<lparr>calls = 2, trace = [], consecutiveErrors = 2\<rparr>)"
    by (simp add: focus_111_def query_defs)
  from title_success_resets_counter [OF h1, of "5 * Second"] h1 show ?thesis
    by simp
qed




text \<open>
  C7. When the title query fails in the first two iterations and succeeds in the
  third, the counter is 1, 2 and 0 after them; the first two iterations only log
  the failure (attempt 1 of 3, attempt 2 of 3) and sleep \<open>interval\<close>, and no line
  of the hint is among the events of the third: the backoff branch is not taken.
\<close>

theorem two_failures_then_success:
  assumes "getActiveWindowTitle U w (enter m) = (Inl e1, a)"
    and "getActiveWindowTitle U w (ticks U w interval 1 (enter m)) = (Inl e2, b)"
    and "getActiveWindowTitle U w (ticks U w interval 2 (enter m)) = (Inr t, c)"
  shows "map (\<lambda>n. consecutiveErrors (ticks U w interval n (enter m))) [1, 2, 3] = [1, 2, 0]
       \<and> tick_events U w interval (enter m) =
           [Log (''Error getting window title (attempt 1/3): '' @ e1), Sleep interval]
       \<and> tick_events U w interval (ticks U w interval 1 (enter m)) =
           [Log (''Error getting window title (attempt 2/3): '' @ e2), Sleep interval]
       \<and> set hint \<inter> set (tick_events U w interval (ticks U w interval 2 (enter m))) = {}"
proof -
  let ?s0 = "enter m"
  let ?s1 = "tick U w interval ?s0"
  let ?s2 = "tick U w interval ?s1"
  let ?s3 = "tick U w interval ?s2"
  have c0: "consecutiveErrors ?s0 = 0" by (simp add: enter_def)
  have "consecutiveErrors ?s0 + 1 < maxConsecutiveErrors"
    by (simp add: c0 maxConsecutiveErrors_def)
  from tick_below_threshold [OF assms(1) this, of interval]
  have e1: "tick_events U w interval ?s0 =
      [Log (''Error getting window title (attempt 1/3): '' @ e1), Sleep interval]"
    and c1: "consecutiveErrors ?s1 = 1"
    by (simp_all add: c0 Itoa_1 Itoa_3 maxConsecutiveErrors_def)
  have title2: "getActiveWindowTitle U w ?s1 = (Inl e2, b)"
    using assms(2) by (simp only: ticks_1)
  have "consecutiveErrors ?s1 + 1 < maxConsecutiveErrors"
    by (simp add: c1 maxConsecutiveErrors_def)
  from tick_below_threshold [OF title2 this, of interval]
  have e2: "tick_events U w interval ?s1 =
      [Log (''Error getting window title (attempt 2/3): '' @ e2), Sleep interval]"
    and c2: "consecutiveErrors ?s2 = 2"
    by (simp_all add: c1 Itoa_2 Itoa_3 maxConsecutiveErrors_def)
  have title3: "getActiveWindowTitle U w ?s2 = (Inr t, c)"
    using assms(3) by (simp only: ticks_2)
  have c3: "consecutiveErrors ?s3 = 0"
    by (rule title_success_counter [OF title3])
  have e3: "set hint \<inter> set (tick_events U w interval ?s2) = {}"
    by (rule hint_not_after_title [OF title3])
  show ?thesis
    using c1 c2 c3 e1 e2 e3 by (simp add: ticks_1 ticks_2 ticks_3)
qed

theorem two_failures_then_success_witness:
  "getActiveWindowTitle ascii_only focus_late (enter start)
     = (Inl ''failed to get active window ID: exit status 1'',
        \<lparr>calls = 1, trace = [], consecutiveErrors = 0\<rparr>)
   \<and> fst (getActiveWindowTitle ascii_only focus_late
        (ticks ascii_only focus_late (5 * Second) 1 (enter start)))
     = Inl ''failed to get active window ID: exit status 1''
   \<and> fst (getActiveWindowTitle ascii_only focus_late
        (ticks ascii_only focus_late (5 * Second) 2 (enter start)))
     = Inr ''Inbox''
   \<and> map (\<lambda>n. consecutiveErrors (ticks ascii_only focus_late (5 * Second) n (enter start)))
        [1, 2, 3] = [1, 2, 0]"
proof -
  let ?e = "''failed to get active window ID: exit status 1''"
  let ?i = "5 * Second"
  let ?l1 = "[Log (''Error getting window title (attempt 1/3): '' @ ?e), Sleep ?i]"
  let ?l2 = "?l1 @ [Log (''Error getting window title (attempt 2/3): '' @ ?e), Sleep ?i]"
  let ?S1 = "\<lparr>calls = 1, trace = ?l1, consecutiveErrors = 1\<rparr>"
  let ?S2 = "\<lparr>calls = 2, trace = ?l2, consecutiveErrors = 2\<rparr>"
  have h1: "getActiveWindowTitle ascii_only focus_late (enter start)
      = (Inl ?e, \<lparr>calls = 1, trace = [], consecutiveErrors = 0\<rparr>)"
    by (simp add: focus_late_def query_defs enter_def start_def)
  have s1: "tick ascii_only focus_late ?i (enter start) = ?S1"
    using tick_title_error [OF h1, of ?i]
    by (simp add: enter_def start_def maxConsecutiveErrors_def Itoa_1 Itoa_3)
  have h2': "getActiveWindowTitle ascii_only focus_late ?S1
      = (Inl ?e, \<lparr>calls = 2, trace = ?l1, consecutiveErrors = 1\<rparr>)"
    by (simp add: focus_late_def query_defs)
  have s2: "tick ascii_only focus_late ?i ?S1 = ?S2"
    using tick_title_error [OF h2', of ?i]
    by (simp add: maxConsecutiveErrors_def Itoa_2 Itoa_3)
  have h3': "getActiveWindowTitle ascii_only focus_late ?S2
      = (Inr ''Inbox'', \<lparr>calls = 4, trace = ?l2, consecutiveErrors = 2\<rparr>)"
    by (simp add: focus_late_def query_defs)
  have h2: "getActiveWindowTitle ascii_only focus_late
        (ticks ascii_only focus_late ?i 1 (enter start))
      = (Inl ?e, \<lparr>calls = 2, trace = ?l1, consecutiveErrors = 1\<rparr>)"
    by (simp only: ticks_1 s1 h2')
  have h3: "getActiveWindowTitle ascii_only focus_late
        (ticks ascii_only focus_late ?i 2 (enter start))
      = (Inr ''Inbox'', \<lparr>calls = 4, trace = ?l2, consecutiveErrors = 2\<rparr>)"
    by (simp only: ticks_2 s1 s2 h3')
  from two_failures_then_success [OF h1 h2 h3]
  have "map (\<lambda>n. consecutiveErrors (ticks ascii_only focus_late ?i n (enter start)))
      [1, 2, 3] = [1, 2, 0]"
    by blast
  with h1 h2 h3 show ?thesis
    by (simp only: fst_conv simp_thms)
qed

text \<open>
  C8. When the tool is not found or the display-geometry query fails, the process
  exits with status 1 after logging the start line and the fatal message, having
  run at most the geometry query: the trace holds no event of the loop and
  nothing has been printed.
\<close>

theorem preflight_failure_is_fatal:
  assumes "isl (LookPath w ''xdotool'')
         \<or> isl (Output w (calls m) [''xdotool'', ''getdisplaygeometry''])"
  shows "\<exists>msg m'. main U w m = Some (1, m')
       \<and> trace m' = trace m @ [Log ''Starting activity monitor...'',
                                 Log (''Dependency check failed: '' @ msg)]
       \<and> msg \<noteq> []
       \<and> printed (trace m') = printed (trace m)
       \<and> calls m' \<le> calls m + 1"
proof (cases "LookPath w ''xdotool''")
  case (Inl e)
  then show ?thesis
    by (simp add: main_def checkDependencies_def emit_def printed_append)
next
  case (Inr path)
  with assms obtain e where "Output w (calls m) [''xdotool'', ''getdisplaygeometry''] = Inl e"
    by (cases "Output w (calls m) [''xdotool'', ''getdisplaygeometry'']") auto
  with Inr show ?thesis
    by (simp add: main_def checkDependencies_def emit_def exec_Output_def printed_append)
qed

theorem preflight_failure_is_fatal_witness:
  "(isl (LookPath headless ''xdotool'')
      \<or> isl (Output headless (calls start) [''xdotool'', ''getdisplaygeometry'']))
   \<and> (\<exists>msg m'. main ascii_only headless start = Some (1, m')
       \<and> trace m' = trace start @ [Log ''Starting activity monitor...'',
                                     Log (''Dependency check failed: '' @ msg)]
       \<and> msg \<noteq> []
       \<and> printed (trace m') = printed (trace start)
       \<and> calls m' \<le> calls start + 1)
   \<and> main ascii_only headless start
     = Some (1, \<lparr>calls = 1, trace = [Log ''Starting activity monitor...'',
          Log (''Dependency check failed: cannot connect to X display. Make sure you''
               @ apostrophe @ ''re running in X11 session: exit status 1'')]\<rparr>)"
proof -
  have h: "isl (LookPath headless ''xdotool'')
      \<or> isl (Output headless (calls start) [''xdotool'', ''getdisplaygeometry''])"
    by (simp add: headless_def)
  have "main ascii_only headless start
     = Some (1, \<lparr>calls = 1, trace = [Log ''Starting activity monitor...'',
          Log (''Dependency check failed: cannot connect to X display. Make sure you''
               @ apostrophe @ ''re running in X11 session: exit status 1'')]\<rparr>)"
    by (simp add: main_def checkDependencies_def emit_def exec_Output_def headless_def start_def)
  with h preflight_failure_is_fatal [OF h, of ascii_only] show ?thesis
    by (simp only: simp_thms)
qed


text \<open>
  C10. In one iteration the window is asked for twice. The title is that of the
  window named by the answer to the first \<open>getactivewindow\<close> (command \<open>calls s\<close>);
  the process name is found from the answer to a second \<open>getactivewindow\<close>
  (command \<open>calls s + 2\<close>), and nothing relates the two answers. When they differ,
  as in the world \<open>focus_moves\<close>, the line printed pairs the title of one window
  (``Inbox'', window 111, a chrome window) with the process of another (``code'',
  window 222).
\<close>

theorem process_name_from_second_query:
  assumes "Output w (calls s) [''xdotool'', ''getactivewindow''] = Inr id1"
    and "Output w (calls s + 1) [''xdotool'', ''getwindowname'', TrimSpace U id1] = Inr title"
    and "Output w (calls s + 2) [''xdotool'', ''getactivewindow''] = Inr id2"
    and "Output w (calls s + 3) [''xdotool'', ''getwindowpid'', TrimSpace U id2] = Inr pid"
    and "Output w (calls s + 4) [''ps'', ''-p'', TrimSpace U pid, ''-o'', ''comm=''] = Inr name"
  shows "tick_events U w interval s =
           Print (activityLine \<lparr>WindowTitle = TrimSpace U title, ProcessName = TrimSpace U name,
                                Timestamp = Now w (calls s + 5)\<rparr>)
           # map Print (tagLines U (TrimSpace U name)) @ [Sleep interval]"
proof -
  have title: "getActiveWindowTitle U w s = (Inr (TrimSpace U title), s\<lparr>calls := calls s + 2\<rparr>)"
    using assms(1,2) by (simp add: title_answer eval_nat_numeral)
  have "getActiveProcessName U w (s\<lparr>calls := calls s + 2\<rparr>\<lparr>consecutiveErrors := 0\<rparr>)
      = (Inr (TrimSpace U name), s\<lparr>calls := calls s + 5, consecutiveErrors := 0\<rparr>)"
    using assms(3,4,5) by (simp add: process_answer eval_nat_numeral)
  from tick_success(1) [OF title this, of interval] show ?thesis
    by (simp add: tick_events_def eval_nat_numeral)
qed

theorem process_name_from_second_query_witness:
  "Output focus_moves 0 [''xdotool'', ''getactivewindow''] = Inr (''111'' @ newline)
   \<and> Output focus_moves 2 [''xdotool'', ''getactivewindow''] = Inr (''222'' @ newline)
   \<and> Output focus_moves 1 [''xdotool'', ''getwindowname'', ''111''] = Inr (''Inbox'' @ newline)
   \<and> Output focus_moves 1 [''xdotool'', ''getwindowname'', ''222''] = Inr (''main.go'' @ newline)
   \<and> Output focus_moves 3 [''xdotool'', ''getwindowpid'', ''111''] = Inr (''10'' @ newline)
   \<and> Output focus_moves 3 [''xdotool'', ''getwindowpid'', ''222''] = Inr (''20'' @ newline)
   \<and> Output focus_moves 4 [''ps'', ''-p'', ''10'', ''-o'', ''comm=''] = Inr (''chrome'' @ newline)
   \<and> Output focus_moves 4 [''ps'', ''-p'', ''20'', ''-o'', ''comm=''] = Inr (''code'' @ newline)
   \<and> tick_events ascii_only focus_moves (5 * Second) (enter start)
     = [Print (activityLine \<lparr>WindowTitle = ''Inbox'', ProcessName = ''code'',
                             Timestamp = \<lparr>hour = 9, minute = 30, second = 5\<rparr>\<rparr>),
        Print (arrow @ '' VS Code activity detected'' @ newline),
        Sleep (5 * Second)]"
proof -
  note defs = focus_moves_def query_defs enter_def start_def
  have h1: "Output focus_moves (calls (enter start)) [''xdotool'', ''getactivewindow'']
      = Inr (''111'' @ newline)"
    by (simp add: defs)
  have h2: "Output focus_moves (calls (enter start) + 1)
      [''xdotool'', ''getwindowname'', TrimSpace ascii_only (''111'' @ newline)]
      = Inr (''Inbox'' @ newline)"
    by (simp add: defs)
  have h3: "Output focus_moves (calls (enter start) + 2) [''xdotool'', ''getactivewindow'']
      = Inr (''222'' @ newline)"
    by (simp add: defs)
  have h4: "Output focus_moves (calls (enter start) + 3)
      [''xdotool'', ''getwindowpid'', TrimSpace ascii_only (''222'' @ newline)]
      = Inr (''20'' @ newline)"
    by (simp add: defs)
  have h5: "Output focus_moves (calls (enter start) + 4)
      [''ps'', ''-p'', TrimSpace ascii_only (''20'' @ newline), ''-o'', ''comm='']
      = Inr (''code'' @ newline)"
    by (simp add: defs)
  have tag: "tagLines ascii_only ''code'' = [arrow @ '' VS Code activity detected'' @ newline]"
    by (simp add: tagLines_eq ToLower_def isASCII_def toLowerASCII_def isUpperASCII_def)
  have now: "Now focus_moves (calls (enter start) + 5) = \<lparr>hour = 9, minute = 30, second = 5\<rparr>"
    by (simp add: defs)
  from process_name_from_second_query [OF h1 h2 h3 h4 h5, of "5 * Second"]
  have "tick_events ascii_only focus_moves (5 * Second) (enter start)
     = [Print (activityLine \<lparr>WindowTitle = ''Inbox'', ProcessName = ''code'',
                             Timestamp = \<lparr>hour = 9, minute = 30, second = 5\<rparr>\<rparr>),
        Print (arrow @ '' VS Code activity detected'' @ newline),
        Sleep (5 * Second)]"
    by (simp add: TrimSpace_def isASCII_def asciiSpace_def newline_def
        tag [unfolded newline_def] now)
  moreover have "Output focus_moves 0 [''xdotool'', ''getactivewindow''] = Inr (''111'' @ newline)"
    "Output focus_moves 2 [''xdotool'', ''getactivewindow''] = Inr (''222'' @ newline)"
    "Output focus_moves 1 [''xdotool'', ''getwindowname'', ''111''] = Inr (''Inbox'' @ newline)"
    "Output focus_moves 1 [''xdotool'', ''getwindowname'', ''222''] = Inr (''main.go'' @ newline)"
    "Output focus_moves 3 [''xdotool'', ''getwindowpid'', ''111''] = Inr (''10'' @ newline)"
    "Output focus_moves 3 [''xdotool'', ''getwindowpid'', ''222''] = Inr (''20'' @ newline)"
    "Output focus_moves 4 [''ps'', ''-p'', ''10'', ''-o'', ''comm=''] = Inr (''chrome'' @ newline)"
    "Output focus_moves 4 [''ps'', ''-p'', ''20'', ''-o'', ''comm=''] = Inr (''code'' @ newline)"
    by (simp_all add: focus_moves_def desktop_def answer_def)
  ultimately show ?thesis
    by (simp only: simp_thms)
qed

end
